theory Spec2Isabelle
  imports Main "HOL-Library.Sublist"
begin

section \<open>Accessible descriptions of a canvas: \<^verbatim>\<open>src/accessibility/describe.js\<close>\<close>

text \<open>
  The module keeps one process-wide object \<^verbatim>\<open>dummy\<close> and mirrors description texts
  into the document tree. The embedding follows the file top-down: the string
  constants, the text normalisers (pure), then the document tree as the browser gives
  it, the store, and the two public methods with their helpers.

  JavaScript strings are modelled as \<^typ>\<open>string\<close>, a thrown exception as a value of
  \<open>error\<close>, the arguments of the public methods as values of \<open>jsval\<close> (the methods
  test \<^verbatim>\<open>typeof\<close>), and the mutable store together with the document as a record
  that every operation takes and returns.
\<close>

subsection \<open>Constants (lines 9--16)\<close>

definition descContainer :: string where "descContainer = ''_Description''"
definition fallbackDescId :: string where "fallbackDescId = ''_fallbackDesc''"
definition fallbackTableId :: string where "fallbackTableId = ''_fallbackTable''"
definition fallbackTableElId :: string where "fallbackTableElId = ''_fte_''"
definition labelContainer :: string where "labelContainer = ''_Label''"
definition labelDescId :: string where "labelDescId = ''_labelDesc''"
definition labelTableId :: string where "labelTableId = ''_labelTable''"
definition labelTableElId :: string where "labelTableElId = ''_lte_''"

subsection \<open>Errors\<close>

text \<open>
  \<open>Error msg\<close> is \<^verbatim>\<open>throw new Error(msg)\<close> (lines 177 and 358). \<open>TypeError\<close> is what
  the engine raises when a property is read or written on \<^verbatim>\<open>null\<close> or
  \<^verbatim>\<open>undefined\<close>, as in \<^verbatim>\<open>querySelector(...).innerHTML = text\<close> when no node matches.
\<close>

datatype error = Error string | TypeError

subsection \<open>Text normalisers (lines 175--185 and 343--370)\<close>

text \<open>\<^verbatim>\<open>s.endsWith(c)\<close> for a one-character string \<open>c\<close>.\<close>

definition endsWith :: "string \<Rightarrow> char \<Rightarrow> bool" where
  "endsWith s c = (s \<noteq> [] \<and> last s = c)"

definition descriptionText :: "string \<Rightarrow> error + string" where
  "descriptionText text =
     (if text = ''label'' \<or> text = ''fallback''
      then Inl (Error ''description should not be LABEL or FALLBACK'')
      else if \<not> endsWith text (CHR ''.'') \<and> \<not> endsWith text (CHR ''?'')
              \<and> \<not> endsWith text (CHR ''!'')
      then Inr (text @ ''.'')
      else Inr text)"

text \<open>
  \<^verbatim>\<open>name.replace(/.$/, r)\<close> is only reached when \<open>name\<close> ends with one of the
  punctuation characters, so the pattern matches exactly the last character:
  the result is \<open>butlast name @ r\<close>.
\<close>

definition nameForID :: "string \<Rightarrow> string" where
  "nameForID name =
     (if endsWith name (CHR ''.'') \<or> endsWith name (CHR '';'')
         \<or> endsWith name (CHR '','') \<or> endsWith name (CHR '':'')
      then butlast name
      else name)"

definition elementName :: "string \<Rightarrow> error + string" where
  "elementName name =
     (if name = ''label'' \<or> name = ''fallback''
      then Inl (Error ''element name should not be LABEL or FALLBACK'')
      else if endsWith name (CHR ''.'') \<or> endsWith name (CHR '';'')
              \<or> endsWith name (CHR '','')
      then Inr (butlast name @ '':'')
      else if \<not> endsWith name (CHR '':'')
      then Inr (name @ '':'')
      else Inr name)"

subsection \<open>Values and the document tree\<close>

text \<open>
  The arguments of the public methods and the properties of \<^verbatim>\<open>dummy\<close> are
  JavaScript values. \<open>JDom\<close> is the reference to the document's \<^verbatim>\<open>body\<close> element
  that \<^verbatim>\<open>_populateDummyDOM\<close> stores; \<open>truthy\<close> is the conversion to boolean that
  \<^verbatim>\<open>!\<close> and \<^verbatim>\<open>if\<close> apply.
\<close>

datatype jsval = JUndefined | JNull | JBool bool | JNum int | JStr string | JDom

definition truthy :: "jsval \<Rightarrow> bool" where
  "truthy v = (case v of JUndefined \<Rightarrow> False | JNull \<Rightarrow> False | JBool b \<Rightarrow> b
                 | JNum n \<Rightarrow> n \<noteq> 0 | JStr s \<Rightarrow> s \<noteq> [] | JDom \<Rightarrow> True)"

text \<open>
  Modelled from the spec: the display-mode constant \<^verbatim>\<open>this.LABEL\<close>, declared
  in the core constants of the repository and not in this file. The spec calls
  \<open>label\<close> and \<open>fallback\<close> the literal reserved tokens used to select the display
  mode.
\<close>

definition LABEL :: jsval where "LABEL = JStr ''label''"

text \<open>
  The document tree is the browser's. It is modelled as the forest of the children of
  \<^verbatim>\<open>body\<close>: an element has a tag, its attributes (the id among them) and its
  children; everything assigned through \<^verbatim>\<open>innerHTML\<close> that is a description text
  or a row's markup is kept as one text node holding the assigned string, and the
  markup templates of the module are written as the elements they parse to.
  \<open>querySelector i\<close> stands for \<^verbatim>\<open>querySelector('#' + i)\<close> and
  \<^verbatim>\<open>getElementById(i)\<close>: the first element in document order whose id is \<open>i\<close>
  (identifiers are taken to be valid in a selector). \<open>update i f\<close> replaces that
  element by the nodes \<open>f\<close> makes of it, and is \<open>None\<close> when no element matches.
\<close>

datatype node = Text string | Elem string "(string \<times> string) list" "node list"

fun querySelectorN :: "string \<Rightarrow> node \<Rightarrow> node option"
  and querySelector :: "string \<Rightarrow> node list \<Rightarrow> node option" where
  "querySelectorN i (Text s) = None"
| "querySelectorN i (Elem t as ks) =
     (if map_of as ''id'' = Some i then Some (Elem t as ks) else querySelector i ks)"
| "querySelector i [] = None"
| "querySelector i (n # ns) =
     (case querySelectorN i n of Some r \<Rightarrow> Some r | None \<Rightarrow> querySelector i ns)"

fun updateN :: "string \<Rightarrow> (node \<Rightarrow> node list) \<Rightarrow> node \<Rightarrow> node list option"
  and update :: "string \<Rightarrow> (node \<Rightarrow> node list) \<Rightarrow> node list \<Rightarrow> node list option" where
  "updateN i f (Text s) = None"
| "updateN i f (Elem t as ks) =
     (if map_of as ''id'' = Some i then Some (f (Elem t as ks))
      else (case update i f ks of None \<Rightarrow> None | Some ks' \<Rightarrow> Some [Elem t as ks']))"
| "update i f [] = None"
| "update i f (n # ns) =
     (case updateN i f n of Some r \<Rightarrow> Some (r @ ns)
      | None \<Rightarrow> (case update i f ns of None \<Rightarrow> None | Some ns' \<Rightarrow> Some (n # ns')))"

text \<open>The four ways the module changes the element it has selected.\<close>

fun setInnerHTML :: "node list \<Rightarrow> node \<Rightarrow> node list" where
  "setInnerHTML new (Elem t as ks) = [Elem t as new]"
| "setInnerHTML new (Text s) = [Text s]"

definition afterend :: "node list \<Rightarrow> node \<Rightarrow> node list" where
  "afterend new n = n # new"

definition beforebegin :: "node list \<Rightarrow> node \<Rightarrow> node list" where
  "beforebegin new n = new @ [n]"

fun appendChild :: "node \<Rightarrow> node \<Rightarrow> node list" where
  "appendChild c (Elem t as ks) = [Elem t as (ks @ [c])]"
| "appendChild c (Text s) = [Text s]"

subsection \<open>The store (line 17) and the outcome of a call\<close>

text \<open>
  \<^verbatim>\<open>dummy\<close> is an object whose property names are built by concatenating the
  canvas id with a fixed suffix; its two fixed properties \<^verbatim>\<open>fallbackElements\<close> and
  \<^verbatim>\<open>labelElements\<close> are objects keyed by canvas id followed by element name. An
  object is modelled by its own properties, a missing one reading \<open>JUndefined\<close>
  (the names every object inherits, such as \<^verbatim>\<open>constructor\<close>, are left out).
  No dynamic key can be one of the two fixed names, so they are separate fields.
  \<open>body\<close> is the document that \<open>JDom\<close> refers to.
\<close>

record state =
  dummy :: "string \<Rightarrow> jsval"
  fallbackElements :: "string \<Rightarrow> jsval"
  labelElements :: "string \<Rightarrow> jsval"
  body :: "node list"

text \<open>
  A call returns normally (\<open>None\<close>) or throws (\<open>Some e\<close>); in both cases the store
  and the document are left as the call made them, since nothing is rolled back.
\<close>

type_synonym outcome = "error option \<times> state"

definition ok :: "state \<Rightarrow> outcome" where
  "ok s = (None, s)"

definition throw :: "error \<Rightarrow> state \<Rightarrow> outcome" where
  "throw e s = (Some e, s)"

definition seq :: "(state \<Rightarrow> outcome) \<Rightarrow> (state \<Rightarrow> outcome) \<Rightarrow> state \<Rightarrow> outcome" where
  "seq f g s = (case f s of (None, s') \<Rightarrow> g s' | (Some e, s') \<Rightarrow> (Some e, s'))"

definition setDummy :: "string \<Rightarrow> jsval \<Rightarrow> state \<Rightarrow> outcome" where
  "setDummy k v s = ok (s\<lparr>dummy := (dummy s)(k := v)\<rparr>)"

definition setFallbackElement :: "string \<Rightarrow> jsval \<Rightarrow> state \<Rightarrow> outcome" where
  "setFallbackElement k v s = ok (s\<lparr>fallbackElements := (fallbackElements s)(k := v)\<rparr>)"

definition setLabelElement :: "string \<Rightarrow> jsval \<Rightarrow> state \<Rightarrow> outcome" where
  "setLabelElement k v s = ok (s\<lparr>labelElements := (labelElements s)(k := v)\<rparr>)"

text \<open>
  \<^verbatim>\<open>dummy[cnvId + 'DOM'].querySelector('#' + i)\<close> followed by a change \<open>f\<close> of the
  element found: a \<open>TypeError\<close> when the property is not the body or when nothing
  matches.
\<close>

definition domUpdate :: "string \<Rightarrow> string \<Rightarrow> (node \<Rightarrow> node list) \<Rightarrow> state \<Rightarrow> outcome" where
  "domUpdate cnvId i f s =
     (if dummy s (cnvId @ ''DOM'') = JDom
      then (case update i f (body s) of
              None \<Rightarrow> throw TypeError s
            | Some b \<Rightarrow> ok (s\<lparr>body := b\<rparr>))
      else throw TypeError s)"

subsection \<open>\<^verbatim>\<open>_clearDummy\<close> and \<^verbatim>\<open>_populateDummyDOM\<close> (lines 113--119)\<close>

definition clearDummy :: "state \<Rightarrow> state" where
  "clearDummy s = s\<lparr>dummy := (\<lambda>k. JUndefined), fallbackElements := (\<lambda>k. JUndefined),
                     labelElements := (\<lambda>k. JUndefined)\<rparr>"

definition populateDummyDOM :: "string \<Rightarrow> state \<Rightarrow> state" where
  "populateDummyDOM cnvId s = s\<lparr>dummy := (dummy s)(cnvId @ ''DOM'' := JDom)\<rparr>"

subsection \<open>\<^verbatim>\<open>_describeLabelHTML\<close> and \<^verbatim>\<open>_describeFallbackHTML\<close> (lines 124--173)\<close>

definition describeLabelHTML :: "string \<Rightarrow> string \<Rightarrow> state \<Rightarrow> outcome" where
  "describeLabelHTML cnvId text =
     seq (\<lambda>s.
            if \<not> truthy (dummy s (cnvId @ labelContainer)) then
              seq (domUpdate cnvId cnvId
                     (afterend [Elem ''div''
                        [(''id'', cnvId @ labelContainer), (''class'', ''p5Label'')]
                        [Elem ''p'' [(''id'', cnvId @ labelDescId)] []]]))
                (seq (setDummy (cnvId @ labelContainer) (JBool True))
                     (setDummy (cnvId @ labelDescId) (JBool True))) s
            else if \<not> truthy (dummy s (cnvId @ labelDescId))
                    \<and> truthy (dummy s (cnvId @ labelTableId)) then
              seq (domUpdate cnvId (cnvId @ labelTableId)
                     (beforebegin [Elem ''p'' [(''id'', cnvId @ labelDescId)] []]))
                  (setDummy (cnvId @ labelDescId) (JBool True)) s
            else ok s)
       (seq (domUpdate cnvId (cnvId @ labelDescId) (setInnerHTML [Text text]))
            (setDummy (cnvId @ ''labelDesc'') (JStr text)))"

text \<open>
  Line 170, \<^verbatim>\<open>dummy[cnvId + 'updateFallbackDesc'] === true;\<close>, is a comparison whose
  value is dropped: it reads the property and changes nothing, so it has no
  counterpart below.
\<close>

definition describeFallbackHTML :: "string \<Rightarrow> string \<Rightarrow> state \<Rightarrow> outcome" where
  "describeFallbackHTML cnvId text =
     seq (\<lambda>s.
            if \<not> truthy (dummy s (cnvId @ descContainer)) then
              seq (domUpdate cnvId cnvId
                     (setInnerHTML [Elem ''div''
                        [(''id'', cnvId @ descContainer), (''role'', ''region''),
                         (''aria-label'', ''Canvas Description'')]
                        [Elem ''p'' [(''id'', cnvId @ fallbackDescId)] []]]))
                (seq (setDummy (cnvId @ descContainer) (JBool True))
                     (setDummy (cnvId @ fallbackDescId) (JBool True))) s
            else if truthy (dummy s (cnvId @ fallbackTableId)) then
              seq (domUpdate cnvId (cnvId @ fallbackTableId)
                     (beforebegin [Elem ''p'' [(''id'', cnvId @ fallbackDescId)] []]))
                  (setDummy (cnvId @ fallbackDescId) (JBool True)) s
            else ok s)
       (\<lambda>s.
          if dummy s (cnvId @ ''DOM'') \<noteq> JDom then throw TypeError s
          else if querySelector (cnvId @ fallbackDescId) (body s) \<noteq> None then
            seq (domUpdate cnvId (cnvId @ fallbackDescId) (setInnerHTML [Text text]))
                (setDummy (cnvId @ ''fallbackDesc'') (JStr text)) s
          else ok s)"

subsection \<open>\<^verbatim>\<open>describe\<close> (lines 74--111)\<close>

text \<open>
  \<open>cnvId\<close> is \<^verbatim>\<open>this.canvas.id\<close>. The call to \<^verbatim>\<open>p5._validateParameters\<close> only
  reports to the console and is left out. \<open>describe_fallback\<close> is lines 86--96 and
  \<open>describe_label\<close> lines 100--110, on the normalised text.
\<close>

definition describe_fallback :: "string \<Rightarrow> string \<Rightarrow> state \<Rightarrow> outcome" where
  "describe_fallback cnvId text s =
     (if dummy s (cnvId @ ''fallbackDesc'') \<noteq> JStr text then
        (if truthy (dummy s (cnvId @ ''updateFallbackDesc'')) then
           seq (domUpdate cnvId (cnvId @ fallbackDescId) (setInnerHTML [Text text]))
               (setDummy (cnvId @ ''fallbackDesc'') (JStr text)) s
         else describeFallbackHTML cnvId text s)
      else ok s)"

definition describe_label :: "string \<Rightarrow> string \<Rightarrow> jsval \<Rightarrow> state \<Rightarrow> outcome" where
  "describe_label cnvId text display s =
     (if display = LABEL \<and> dummy s (cnvId @ ''labelDesc'') \<noteq> JStr text then
        (if truthy (dummy s (cnvId @ labelDescId)) then
           seq (domUpdate cnvId (cnvId @ labelDescId) (setInnerHTML [Text text]))
               (setDummy (cnvId @ ''labelDesc'') (JStr text)) s
         else describeLabelHTML cnvId text s)
      else ok s)"

definition describe :: "string \<Rightarrow> jsval \<Rightarrow> jsval \<Rightarrow> state \<Rightarrow> outcome" where
  "describe cnvId text display s =
     (case text of
        JStr t \<Rightarrow>
          (case descriptionText t of
             Inl e \<Rightarrow> throw e s
           | Inr text' \<Rightarrow>
               seq (\<lambda>s. ok (if \<not> truthy (dummy s (cnvId @ ''fallbackDesc''))
                               \<or> \<not> truthy (dummy s (cnvId @ ''labelDesc''))
                            then populateDummyDOM cnvId s else s))
                 (seq (describe_fallback cnvId text')
                      (describe_label cnvId text' display)) s)
      | _ \<Rightarrow> ok s)"

subsection \<open>\<^verbatim>\<open>describeElement\<close> and its helpers (lines 232--341)\<close>

definition descElementLabelHTML :: "string \<Rightarrow> string \<Rightarrow> string \<Rightarrow> state \<Rightarrow> outcome" where
  "descElementLabelHTML cnvId name inner =
     seq (\<lambda>s.
            if \<not> truthy (dummy s (cnvId @ labelContainer)) then
              seq (domUpdate cnvId cnvId
                     (afterend [Elem ''div''
                        [(''id'', cnvId @ labelContainer), (''class'', ''p5Label'')]
                        [Elem ''table'' [(''id'', cnvId @ labelTableId)] []]]))
                (seq (setDummy (cnvId @ labelContainer) (JBool True))
                     (setDummy (cnvId @ labelTableId) (JBool True))) s
            else if dummy s (cnvId @ ''DOM'') \<noteq> JDom then throw TypeError s
            else if querySelector (cnvId @ labelDescId) (body s) \<noteq> None then
              seq (domUpdate cnvId (cnvId @ labelDescId)
                     (afterend [Elem ''table'' [(''id'', cnvId @ labelTableId)] []]))
                  (setDummy (cnvId @ labelTableId) (JBool True)) s
            else ok s)
       (\<lambda>s.
          if \<not> truthy (labelElements s (cnvId @ name))
             \<and> truthy (dummy s (cnvId @ labelTableId)) then
            seq (domUpdate cnvId (cnvId @ labelTableId)
                   (appendChild (Elem ''tr'' [(''id'', cnvId @ labelTableElId @ name)] [])))
              (seq (setLabelElement (cnvId @ name) (JStr inner))
                   (domUpdate cnvId (cnvId @ labelTableElId @ name)
                      (setInnerHTML [Text inner]))) s
          else ok s)"

definition descElementFallbackHTML :: "string \<Rightarrow> string \<Rightarrow> string \<Rightarrow> state \<Rightarrow> outcome" where
  "descElementFallbackHTML cnvId name inner =
     seq (\<lambda>s.
            if \<not> truthy (dummy s (cnvId @ descContainer)) then
              seq (domUpdate cnvId cnvId
                     (setInnerHTML [Elem ''div''
                        [(''id'', cnvId @ descContainer), (''role'', ''region''),
                         (''aria-label'', ''Canvas Description'')]
                        [Elem ''table'' [(''id'', cnvId @ fallbackTableId)]
                           [Elem ''caption'' []
                              [Text ''Canvas elements and their descriptions'']]]]))
                (seq (setDummy (cnvId @ descContainer) (JBool True))
                     (setDummy (cnvId @ fallbackTableId) (JBool True))) s
            else if querySelector (cnvId @ fallbackDescId) (body s) \<noteq> None then
              seq (domUpdate cnvId (cnvId @ fallbackDescId)
                     (afterend [Elem ''table'' [(''id'', cnvId @ fallbackTableId)]
                        [Elem ''caption'' []
                           [Text ''Canvas elements and their descriptions'']]]))
                  (setDummy (cnvId @ fallbackTableId) (JBool True)) s
            else ok s)
       (\<lambda>s.
          if \<not> truthy (fallbackElements s (cnvId @ name))
             \<and> truthy (dummy s (cnvId @ fallbackTableId)) then
            seq (domUpdate cnvId (cnvId @ fallbackTableId)
                   (appendChild (Elem ''tr'' [(''id'', cnvId @ fallbackTableElId @ name)] [])))
              (seq (setFallbackElement (cnvId @ name) (JStr inner))
                   (domUpdate cnvId (cnvId @ fallbackTableElId @ name)
                      (setInnerHTML [Text inner]))) s
          else ok s)"

text \<open>The template of line 241.\<close>

definition rowMarkup :: "string \<Rightarrow> string \<Rightarrow> string" where
  "rowMarkup elName text = ''<th scope=\"row\">'' @ elName @ ''</th><td>'' @ text @ ''</td>''"

text \<open>Lines 250--259 and 263--272, on the key \<open>name\<close> and the row markup \<open>inner\<close>.\<close>

definition describeElement_fallback :: "string \<Rightarrow> string \<Rightarrow> string \<Rightarrow> state \<Rightarrow> outcome" where
  "describeElement_fallback cnvId name inner s =
     (if fallbackElements s (cnvId @ name) \<noteq> JStr inner then
        (if \<not> truthy (fallbackElements s (cnvId @ name)) then
           descElementFallbackHTML cnvId name inner s
         else
           seq (setFallbackElement (cnvId @ name) (JStr inner))
               (domUpdate cnvId (cnvId @ fallbackTableElId @ name)
                  (setInnerHTML [Text inner])) s)
      else ok s)"

definition describeElement_label ::
  "string \<Rightarrow> string \<Rightarrow> string \<Rightarrow> jsval \<Rightarrow> state \<Rightarrow> outcome" where
  "describeElement_label cnvId name inner display s =
     (if display = LABEL \<and> labelElements s (cnvId @ name) \<noteq> JStr inner then
        (if \<not> truthy (labelElements s (cnvId @ name)) then
           descElementLabelHTML cnvId name inner s
         else
           seq (setLabelElement (cnvId @ name) (JStr inner))
               (domUpdate cnvId (cnvId @ labelTableElId @ name)
                  (setInnerHTML [Text inner])) s)
      else ok s)"

definition describeElement :: "string \<Rightarrow> jsval \<Rightarrow> jsval \<Rightarrow> jsval \<Rightarrow> state \<Rightarrow> outcome" where
  "describeElement cnvId name text display s =
     (case (text, name) of
        (JStr t, JStr n) \<Rightarrow>
          (case descriptionText t of
             Inl e \<Rightarrow> throw e s
           | Inr text' \<Rightarrow>
               (case elementName n of
                  Inl e \<Rightarrow> throw e s
                | Inr elName \<Rightarrow>
                    seq (\<lambda>s. ok (if \<not> truthy (fallbackElements s (cnvId @ nameForID n))
                                    \<or> \<not> truthy (labelElements s (cnvId @ nameForID n))
                                 then populateDummyDOM cnvId s else s))
                      (seq (describeElement_fallback cnvId (nameForID n)
                              (rowMarkup elName text'))
                           (describeElement_label cnvId (nameForID n)
                              (rowMarkup elName text') display)) s))
      | _ \<Rightarrow> ok s)"

subsection \<open>States the module can be in\<close>

text \<open>
  When the module is loaded the store is empty (line 17) and the document is whatever
  the page holds. From there the state changes by calls of the public methods, with
  any arguments and whether they return or throw, and by \<^verbatim>\<open>_clearDummy\<close>.
\<close>

definition initial :: "node list \<Rightarrow> state" where
  "initial b = \<lparr>dummy = (\<lambda>k. JUndefined), fallbackElements = (\<lambda>k. JUndefined),
                labelElements = (\<lambda>k. JUndefined), body = b\<rparr>"

inductive reachable :: "state \<Rightarrow> bool" where
  r_initial: "reachable (initial b)"
| r_describe: "reachable s \<Longrightarrow> reachable (snd (describe cnvId text display s))"
| r_describeElement:
    "reachable s \<Longrightarrow> reachable (snd (describeElement cnvId name text display s))"
| r_clearDummy: "reachable s \<Longrightarrow> reachable (clearDummy s)"

section \<open>Notions used to state the properties\<close>

text \<open>A page with a canvas: the element the surface id names, with nothing inside.\<close>

definition canvas :: "string \<Rightarrow> node" where
  "canvas i = Elem ''canvas'' [(''id'', i)] []"

text \<open>
  \<open>occurs P ns\<close>: some element of the forest, at any depth, has an id satisfying \<open>P\<close>.
  \<open>collect P ns\<close>: these elements with all they contain, in document order.
\<close>

definition idSat :: "(string \<Rightarrow> bool) \<Rightarrow> (string \<times> string) list \<Rightarrow> bool" where
  "idSat P as = (case map_of as ''id'' of None \<Rightarrow> False | Some i \<Rightarrow> P i)"

fun occursN :: "(string \<Rightarrow> bool) \<Rightarrow> node \<Rightarrow> bool"
  and occurs :: "(string \<Rightarrow> bool) \<Rightarrow> node list \<Rightarrow> bool" where
  "occursN P (Text s) = False"
| "occursN P (Elem t as ks) = (idSat P as \<or> occurs P ks)"
| "occurs P [] = False"
| "occurs P (n # ns) = (occursN P n \<or> occurs P ns)"

fun collectN :: "(string \<Rightarrow> bool) \<Rightarrow> node \<Rightarrow> node list"
  and collect :: "(string \<Rightarrow> bool) \<Rightarrow> node list \<Rightarrow> node list" where
  "collectN P (Text s) = []"
| "collectN P (Elem t as ks) = (if idSat P as then [Elem t as ks] else []) @ collect P ks"
| "collect P [] = []"
| "collect P (n # ns) = collectN P n @ collect P ns"

text \<open>
  \<open>strip T ns\<close>: the forest without the elements that have a \<open>T\<close> id and
  without what they contain.
\<close>

fun stripN :: "(string \<Rightarrow> bool) \<Rightarrow> node \<Rightarrow> node list"
  and strip :: "(string \<Rightarrow> bool) \<Rightarrow> node list \<Rightarrow> node list" where
  "stripN T (Text s) = [Text s]"
| "stripN T (Elem t as ks) = (if idSat T as then [] else [Elem t as (strip T ks)])"
| "strip T [] = []"
| "strip T (n # ns) = stripN T n @ strip T ns"

text \<open>
  \<open>apart L T ns\<close>: in the forest no element with an \<open>L\<close> id lies inside an element
  with a \<open>T\<close> id, nor the other way round. This is how the module lays the two
  regions out: the accessible-only region inside the canvas element, the visible
  label after it.
\<close>

fun apartN :: "(string \<Rightarrow> bool) \<Rightarrow> (string \<Rightarrow> bool) \<Rightarrow> node \<Rightarrow> bool"
  and apart :: "(string \<Rightarrow> bool) \<Rightarrow> (string \<Rightarrow> bool) \<Rightarrow> node list \<Rightarrow> bool" where
  "apartN L T (Text s) = True"
| "apartN L T (Elem t as ks) =
     ((idSat L as \<longrightarrow> \<not> occurs T ks) \<and> (idSat T as \<longrightarrow> \<not> occurs L ks) \<and> apart L T ks)"
| "apart L T [] = True"
| "apart L T (n # ns) = (apartN L T n \<and> apart L T ns)"



text \<open>
  \<open>frame D F G L T s s'\<close> says what a step from \<open>s\<close> to \<open>s'\<close> leaves as it was:
  the properties of \<^verbatim>\<open>dummy\<close> named by \<open>D\<close>; the rows named by \<open>F\<close> and by
  \<open>G\<close>; the document outside the elements with a \<open>T\<close> id, which are the ones the
  step selects or creates; and the elements with an \<open>L\<close> id, provided they lie apart
  from those with a \<open>T\<close> id. \<open>preserves R f\<close>: the operation \<open>f\<close> relates every
  state to the one it leaves, whether it returns or throws. The two footprints say
  that the properties one region of a surface writes are outside \<open>D\<close>, and the ids
  it selects or creates inside \<open>T\<close> and outside \<open>L\<close>.
\<close>

definition frame ::
  "(string \<Rightarrow> bool) \<Rightarrow> (string \<Rightarrow> bool) \<Rightarrow> (string \<Rightarrow> bool) \<Rightarrow> (string \<Rightarrow> bool)
     \<Rightarrow> (string \<Rightarrow> bool) \<Rightarrow> state \<Rightarrow> state \<Rightarrow> bool" where
  "frame D F G L T s s' =
     ((\<forall>k. D k \<longrightarrow> dummy s' k = dummy s k)
      \<and> (\<forall>k. F k \<longrightarrow> fallbackElements s' k = fallbackElements s k)
      \<and> (\<forall>k. G k \<longrightarrow> labelElements s' k = labelElements s k)
      \<and> strip T (body s') = strip T (body s)
      \<and> (apart L T (body s) \<longrightarrow>
           apart L T (body s') \<and> collect L (body s') = collect L (body s)))"

definition preserves :: "(state \<Rightarrow> state \<Rightarrow> bool) \<Rightarrow> (state \<Rightarrow> outcome) \<Rightarrow> bool" where
  "preserves R f = (\<forall>s. R s (snd (f s)))"

definition fallbackFootprint ::
  "string \<Rightarrow> (string \<Rightarrow> bool) \<Rightarrow> (string \<Rightarrow> bool) \<Rightarrow> (string \<Rightarrow> bool) \<Rightarrow> bool" where
  "fallbackFootprint cnvId D L T =
     (\<not> D (cnvId @ ''fallbackDesc'') \<and> \<not> D (cnvId @ descContainer)
      \<and> \<not> D (cnvId @ fallbackDescId) \<and> \<not> D (cnvId @ fallbackTableId)
      \<and> T cnvId \<and> T (cnvId @ descContainer) \<and> T (cnvId @ fallbackDescId)
      \<and> T (cnvId @ fallbackTableId) \<and> (\<forall>j. L j \<longrightarrow> \<not> T j))"

definition labelFootprint ::
  "string \<Rightarrow> (string \<Rightarrow> bool) \<Rightarrow> (string \<Rightarrow> bool) \<Rightarrow> (string \<Rightarrow> bool) \<Rightarrow> bool" where
  "labelFootprint cnvId D L T =
     (\<not> D (cnvId @ ''labelDesc'') \<and> \<not> D (cnvId @ labelContainer)
      \<and> \<not> D (cnvId @ labelDescId) \<and> \<not> D (cnvId @ labelTableId)
      \<and> T cnvId \<and> T (cnvId @ labelContainer) \<and> T (cnvId @ labelDescId)
      \<and> T (cnvId @ labelTableId) \<and> (\<forall>j. L j \<longrightarrow> \<not> T j))"


definition tableFirst :: state where
  "tableFirst =
     snd (describe ''c'' (JStr ''sky'') JUndefined
       (snd (describeElement ''c'' (JStr ''Heart'') (JStr ''red heart'') JUndefined
              (initial [canvas ''c'']))))"





lemmas id_consts =
  descContainer_def fallbackDescId_def fallbackTableId_def fallbackTableElId_def
  labelContainer_def labelDescId_def labelTableId_def labelTableElId_def

lemmas exec_defs =
  describe_def describeElement_def describe_fallback_def describe_label_def
  describeElement_fallback_def describeElement_label_def
  describeFallbackHTML_def describeLabelHTML_def descElementFallbackHTML_def
  descElementLabelHTML_def populateDummyDOM_def domUpdate_def setDummy_def
  setFallbackElement_def setLabelElement_def seq_def ok_def throw_def
  descriptionText_def elementName_def nameForID_def endsWith_def rowMarkup_def
  truthy_def LABEL_def initial_def canvas_def id_consts
  afterend_def beforebegin_def

section \<open>Properties of the normalisers\<close>

text \<open>
  C7. For a text that is not a reserved token, \<open>descriptionText\<close> returns the text
  unchanged when it ends with a full stop, an exclamation mark or a question mark, and
  the text with one full stop appended otherwise; so the text that is published
  always ends with one of the three characters. The instances are \<open>ok\<close> and
  \<open>ok!\<close>.
\<close>

theorem descriptionText_normalises:
  assumes "text \<noteq> ''label''" and "text \<noteq> ''fallback''"
  shows "descriptionText text =
           Inr (if endsWith text (CHR ''.'') \<or> endsWith text (CHR ''!'')
                   \<or> endsWith text (CHR ''?'')
                then text else text @ ''.'')
         \<and> (\<exists>t. descriptionText text = Inr t
               \<and> (endsWith t (CHR ''.'') \<or> endsWith t (CHR ''!'') \<or> endsWith t (CHR ''?'')))"
  using assms by (auto simp: descriptionText_def endsWith_def)

theorem descriptionText_normalises_witness:
  "descriptionText ''ok'' = Inr ''ok.'' \<and> descriptionText ''ok!'' = Inr ''ok!''"
  using descriptionText_normalises [of "''ok''"] descriptionText_normalises [of "''ok!''"]
  by (simp add: endsWith_def)

text \<open>
  C8. For a name that is not a reserved token: \<open>elementName\<close> replaces one trailing
  full stop, semicolon or comma by a colon, leaves a name ending in a colon as it is and
  appends a colon to any other name; \<open>nameForID\<close> strips exactly one trailing full
  stop, semicolon, comma or colon and changes nothing else. The instances are
  \<open>Circle,\<close> and \<open>Circle.\<close>: same display name \<open>Circle:\<close>, same key \<open>Circle\<close>.
\<close>

theorem elementName_nameForID_normalise:
  assumes "name \<noteq> ''label''" and "name \<noteq> ''fallback''"
  shows "(\<forall>base c. name = base @ [c] \<and> c \<in> {CHR ''.'', CHR '';'', CHR '',''}
            \<longrightarrow> elementName name = Inr (base @ '':'') \<and> nameForID name = base)
         \<and> (\<forall>base. name = base @ '':''
            \<longrightarrow> elementName name = Inr name \<and> nameForID name = base)
         \<and> (name = [] \<or> last name \<notin> {CHR ''.'', CHR '';'', CHR '','', CHR '':''}
            \<longrightarrow> elementName name = Inr (name @ '':'') \<and> nameForID name = name)"
  using assms by (auto simp: elementName_def nameForID_def endsWith_def)

theorem elementName_nameForID_normalise_witness:
  "elementName ''Circle,'' = Inr ''Circle:'' \<and> nameForID ''Circle,'' = ''Circle''
   \<and> elementName ''Circle.'' = Inr ''Circle:'' \<and> nameForID ''Circle.'' = ''Circle''
   \<and> elementName ''Circle:'' = Inr ''Circle:'' \<and> nameForID ''Circle:'' = ''Circle''
   \<and> elementName ''Circle'' = Inr ''Circle:'' \<and> nameForID ''Circle'' = ''Circle''"
  using elementName_nameForID_normalise [of "''Circle,''"]
    elementName_nameForID_normalise [of "''Circle.''"]
    elementName_nameForID_normalise [of "''Circle:''"]
    elementName_nameForID_normalise [of "''Circle''"]
  by simp

section \<open>Arguments that are refused\<close>

text \<open>
  C9. A call of \<open>describe\<close> whose text is not a string, and a call of
  \<open>describeElement\<close> whose name or text is not a string, returns normally and leaves
  the store and the document as they were.
\<close>

theorem non_string_argument_is_silent_noop:
  "((\<forall>t. tx \<noteq> JStr t) \<longrightarrow> describe cnvId tx display s = (None, s))
   \<and> ((\<forall>t. tx \<noteq> JStr t) \<or> (\<forall>n. name \<noteq> JStr n)
        \<longrightarrow> describeElement cnvId name tx display s = (None, s))"
  by (cases tx; cases name) (auto simp: describe_def describeElement_def ok_def)

theorem non_string_argument_is_silent_noop_witness:
  "describe ''c'' (JNum 5) LABEL (initial []) = (None, initial [])
   \<and> describeElement ''c'' JUndefined (JStr ''red heart'') LABEL (initial []) = (None, initial [])
   \<and> describeElement ''c'' (JStr ''Heart'') (JBool True) LABEL (initial []) = (None, initial [])"
  using non_string_argument_is_silent_noop
          [where tx = "JNum 5" and cnvId = "''c''" and display = LABEL and s = "initial []"]
        non_string_argument_is_silent_noop
          [where tx = "JStr ''red heart''" and name = JUndefined and cnvId = "''c''"
             and display = LABEL and s = "initial []"]
        non_string_argument_is_silent_noop
          [where tx = "JBool True" and name = "JStr ''Heart''" and cnvId = "''c''"
             and display = LABEL and s = "initial []"]
  by simp

text \<open>
  C6. \<open>describe\<close> with the text \<open>label\<close> or \<open>fallback\<close>, and \<open>describeElement\<close>
  with the name \<open>label\<close> or \<open>fallback\<close> (and any string as text), throw an
  \<open>Error\<close>, and the store and the document are exactly as before the call. The
  comparison is case-sensitive: \<open>Label\<close> is accepted by the normaliser.
\<close>

theorem reserved_token_throws_and_changes_nothing:
  "(t = ''label'' \<or> t = ''fallback''
      \<longrightarrow> describe cnvId (JStr t) display s
          = (Some (Error ''description should not be LABEL or FALLBACK''), s))
   \<and> (n = ''label'' \<or> n = ''fallback''
      \<longrightarrow> (\<exists>msg. describeElement cnvId (JStr n) (JStr t') display s = (Some (Error msg), s)))
   \<and> descriptionText ''Label'' = Inr ''Label.''"
  by (auto simp: describe_def describeElement_def descriptionText_def elementName_def
        throw_def endsWith_def)

theorem reserved_token_throws_and_changes_nothing_witness:
  "describe ''c'' (JStr ''label'') JUndefined (initial [])
     = (Some (Error ''description should not be LABEL or FALLBACK''), initial [])
   \<and> (\<exists>msg. describeElement ''c'' (JStr ''fallback'') (JStr ''red heart'') LABEL (initial [])
             = (Some (Error msg), initial []))"
  using reserved_token_throws_and_changes_nothing
          [where t = "''label''" and cnvId = "''c''" and display = JUndefined
             and s = "initial []"]
        reserved_token_throws_and_changes_nothing
          [where n = "''fallback''" and t' = "''red heart''" and cnvId = "''c''"
             and display = LABEL and s = "initial []"]
  by simp

text \<open>
  C10. \<open>describeElement\<close> normalises the text before it looks at the name, so it
  throws when the text is \<open>label\<close> or \<open>fallback\<close>, whatever string the name is, with
  the message of the description check; when the text is accepted and the name is
  \<open>label\<close> or \<open>fallback\<close>, it throws with the message of the name check.
\<close>

theorem describeElement_reserved_text_throws:
  "(t = ''label'' \<or> t = ''fallback''
      \<longrightarrow> describeElement cnvId (JStr n) (JStr t) display s
          = (Some (Error ''description should not be LABEL or FALLBACK''), s))
   \<and> (t \<noteq> ''label'' \<and> t \<noteq> ''fallback'' \<and> (n = ''label'' \<or> n = ''fallback'')
      \<longrightarrow> describeElement cnvId (JStr n) (JStr t) display s
          = (Some (Error ''element name should not be LABEL or FALLBACK''), s))"
  by (auto simp: describeElement_def descriptionText_def elementName_def throw_def)

theorem describeElement_reserved_text_throws_witness:
  "describeElement ''c'' (JStr ''Heart'') (JStr ''label'') JUndefined (initial [])
     = (Some (Error ''description should not be LABEL or FALLBACK''), initial [])
   \<and> describeElement ''c'' (JStr ''label'') (JStr ''fallback'') JUndefined (initial [])
     = (Some (Error ''description should not be LABEL or FALLBACK''), initial [])
   \<and> describeElement ''c'' (JStr ''label'') (JStr ''red heart'') JUndefined (initial [])
     = (Some (Error ''element name should not be LABEL or FALLBACK''), initial [])"
  using describeElement_reserved_text_throws
          [where t = "''label''" and n = "''Heart''" and cnvId = "''c''"
             and display = JUndefined and s = "initial []"]
        describeElement_reserved_text_throws
          [where t = "''fallback''" and n = "''label''" and cnvId = "''c''"
             and display = JUndefined and s = "initial []"]
        describeElement_reserved_text_throws
          [where t = "''red heart''" and n = "''label''" and cnvId = "''c''"
             and display = JUndefined and s = "initial []"]
  by simp

section \<open>The document tree\<close>

text \<open>
  \<open>querySelector\<close> and \<open>update\<close> fail on the same documents: those in which the
  id does not occur.
\<close>

lemma occurs_append [simp]: "occurs P (xs @ ys) = (occurs P xs \<or> occurs P ys)"
  by (induction xs) auto

lemma collect_append [simp]: "collect P (xs @ ys) = collect P xs @ collect P ys"
  by (induction xs) auto

lemma apart_append [simp]: "apart L T (xs @ ys) = (apart L T xs \<and> apart L T ys)"
  by (induction xs) auto

lemma strip_append [simp]: "strip T (xs @ ys) = strip T xs @ strip T ys"
  by (induction xs) auto

lemma occurs_collect:
  "occursN P n = (collectN P n \<noteq> [])" "occurs P ns = (collect P ns \<noteq> [])"
  by (induction P n and P ns rule: occursN_occurs.induct) auto

lemma not_occurs_apart:
  "\<not> occursN L n \<Longrightarrow> apartN L T n" "\<not> occurs L ns \<Longrightarrow> apart L T ns"
  by (induction L n and L ns rule: occursN_occurs.induct) auto


lemma update_None_iff:
  "(updateN i f n = None) = (\<not> occursN (\<lambda>j. j = i) n)"
  "(update i f ns = None) = (\<not> occurs (\<lambda>j. j = i) ns)"
  by (induction i f n and i f ns rule: updateN_update.induct)
     (auto simp: idSat_def split: option.splits)

lemma occurs_mono:
  "occursN P n \<Longrightarrow> (\<And>j. P j \<Longrightarrow> Q j) \<Longrightarrow> occursN Q n"
  "occurs P ns \<Longrightarrow> (\<And>j. P j \<Longrightarrow> Q j) \<Longrightarrow> occurs Q ns"
  by (induction P n and P ns rule: occursN_occurs.induct)
     (auto simp: idSat_def split: option.splits)


text \<open>
  An update at an element with a \<open>T\<close> id leaves the elements with an \<open>L\<close> id as they
  are, and the two kinds apart, when it brings in no \<open>L\<close> id.
\<close>

lemma update_frame:
  assumes disj: "\<And>j. L j \<Longrightarrow> \<not> T j"
  shows "updateN i f n = Some r \<Longrightarrow> apartN L T n \<Longrightarrow> T i
           \<Longrightarrow> (\<And>m. \<not> occursN L m \<Longrightarrow> \<not> occurs L (f m))
           \<Longrightarrow> collect L r = collectN L n \<and> apart L T r"
    and "update i f ns = Some ns' \<Longrightarrow> apart L T ns \<Longrightarrow> T i
           \<Longrightarrow> (\<And>m. \<not> occursN L m \<Longrightarrow> \<not> occurs L (f m))
           \<Longrightarrow> collect L ns' = collect L ns \<and> apart L T ns'"
proof (induction i f n and i f ns arbitrary: r and ns' rule: updateN_update.induct)
  case (1 i f s)
  then show ?case by simp
next
  case (2 i f t as ks)
  note Ti = \<open>T i\<close> and good = 2(5)
  show ?case
  proof (cases "map_of as ''id'' = Some i")
    case True
    then have T: "idSat T as" using Ti by (simp add: idSat_def)
    then have nL: "\<not> idSat L as" using True disj by (auto simp: idSat_def)
    from T 2(3) have "\<not> occurs L ks" by simp
    with nL have no: "\<not> occursN L (Elem t as ks)" by simp
    from True 2(2) have r: "r = f (Elem t as ks)" by simp
    from good[OF no] have "\<not> occurs L r" by (simp add: r)
    then show ?thesis using no not_occurs_apart(2)[of L r T]
      by (simp add: occurs_collect)
  next
    case False
    with 2(2) obtain ks' where u: "update i f ks = Some ks'" and r: "r = [Elem t as ks']"
      by (auto split: option.splits)
    from 2(3) have ap: "apart L T ks" by simp
    from 2(1)[OF False u ap Ti good]
    have c: "collect L ks' = collect L ks" and a: "apart L T ks'" by auto
    from u have "occurs (\<lambda>j. j = i) ks" using update_None_iff(2)[of i f ks] by auto
    then have Tk: "occurs T ks" using Ti occurs_mono(2)[of "\<lambda>j. j = i" ks T] by simp
    with 2(3) have nL: "\<not> idSat L as" by auto
    have "occurs L ks' = occurs L ks" using c by (simp add: occurs_collect)
    with 2(3) a nL show ?thesis by (simp add: r c)
  qed
next
  case (3 i f)
  then show ?case by simp
next
  case (4 i f n ns)
  show ?case
  proof (cases "updateN i f n")
    case None
    with 4(3) obtain ms where u: "update i f ns = Some ms" and r: "ns' = n # ms"
      by (auto split: option.splits)
    from 4(2)[OF None u _ 4(5) 4(6)] 4(4) show ?thesis by (simp add: r)
  next
    case (Some r)
    with 4(3) have ns': "ns' = r @ ns" by simp
    from 4(1)[OF Some _ 4(5) 4(6)] 4(4) show ?thesis by (simp add: ns')
  qed
qed

text \<open>
  An update at an element with a \<open>T\<close> id that puts only elements with a \<open>T\<close> id
  beside it changes nothing outside the elements with a \<open>T\<close> id.
\<close>

lemma update_strip:
  "updateN i f n = Some r \<Longrightarrow> T i
     \<Longrightarrow> (\<And>t as ks. idSat T as \<Longrightarrow> strip T (f (Elem t as ks)) = [])
     \<Longrightarrow> strip T r = stripN T n"
  "update i f ns = Some ns' \<Longrightarrow> T i
     \<Longrightarrow> (\<And>t as ks. idSat T as \<Longrightarrow> strip T (f (Elem t as ks)) = [])
     \<Longrightarrow> strip T ns' = strip T ns"
proof (induction i f n and i f ns arbitrary: r and ns' rule: updateN_update.induct)
  case (1 i f s)
  then show ?case by simp
next
  case (2 i f t as ks)
  show ?case
  proof (cases "map_of as ''id'' = Some i")
    case True
    with 2(3) have "idSat T as" by (simp add: idSat_def)
    with True 2(2) 2(4) show ?thesis by auto
  next
    case False
    with 2(2) obtain ks' where u: "update i f ks = Some ks'" and r: "r = [Elem t as ks']"
      by (auto split: option.splits)
    from 2(1)[OF False u 2(3) 2(4)] show ?thesis by (simp add: r)
  qed
next
  case (3 i f)
  then show ?case by simp
next
  case (4 i f n ns)
  show ?case
  proof (cases "updateN i f n")
    case None
    with 4(3) obtain ms where u: "update i f ns = Some ms" and r: "ns' = n # ms"
      by (auto split: option.splits)
    from 4(2)[OF None u 4(4) 4(5)] show ?thesis by (simp add: r)
  next
    case (Some r)
    with 4(3) have ns': "ns' = r @ ns" by simp
    from 4(1)[OF Some 4(4) 4(5)] show ?thesis by (simp add: ns')
  qed
qed

section \<open>What a call leaves unchanged\<close>

lemma frame_refl: "frame D F G L T s s"
  by (simp add: frame_def)

lemma frame_trans: "frame D F G L T a b \<Longrightarrow> frame D F G L T b c \<Longrightarrow> frame D F G L T a c"
  by (simp add: frame_def)

lemma preserves_ok: "preserves (frame D F G L T) ok"
  by (simp add: preserves_def ok_def frame_refl)

lemma preserves_throw: "preserves (frame D F G L T) (throw e)"
  by (simp add: preserves_def throw_def frame_refl)

lemma preserves_seq:
  "preserves (frame D F G L T) f \<Longrightarrow> preserves (frame D F G L T) g
     \<Longrightarrow> preserves (frame D F G L T) (seq f g)"
  unfolding preserves_def seq_def
proof (intro allI)
  fix s
  assume f: "\<forall>s. frame D F G L T s (snd (f s))" and g: "\<forall>s. frame D F G L T s (snd (g s))"
  obtain r s' where fs: "f s = (r, s')" by (cases "f s")
  from f have 1: "frame D F G L T s s'" using fs by (metis snd_conv)
  show "frame D F G L T s (snd (case f s of (None, s') \<Rightarrow> g s' | (Some e, s') \<Rightarrow> (Some e, s')))"
  proof (cases r)
    case None
    with fs 1 g frame_trans show ?thesis by auto
  next
    case (Some e)
    with fs 1 show ?thesis by simp
  qed
qed

lemma preserves_if:
  "preserves R f \<Longrightarrow> preserves R g \<Longrightarrow> preserves R (\<lambda>s. if c s then f s else g s)"
  by (simp add: preserves_def)

lemma preserves_setDummy: "\<not> D k \<Longrightarrow> preserves (frame D F G L T) (setDummy k v)"
  by (auto simp: preserves_def setDummy_def ok_def frame_def)

lemma preserves_setFallbackElement:
  "\<not> F k \<Longrightarrow> preserves (frame D F G L T) (setFallbackElement k v)"
  by (auto simp: preserves_def setFallbackElement_def ok_def frame_def)

lemma preserves_setLabelElement:
  "\<not> G k \<Longrightarrow> preserves (frame D F G L T) (setLabelElement k v)"
  by (auto simp: preserves_def setLabelElement_def ok_def frame_def)

lemma preserves_domUpdate:
  assumes "\<forall>j. L j \<longrightarrow> \<not> T j" and "T i"
    and "\<And>m. \<not> occursN L m \<Longrightarrow> \<not> occurs L (f m)"
    and "\<And>t as ks. idSat T as \<Longrightarrow> strip T (f (Elem t as ks)) = []"
  shows "preserves (frame D F G L T) (domUpdate c i f)"
  unfolding preserves_def
proof
  fix s
  show "frame D F G L T s (snd (domUpdate c i f s))"
  proof (cases "dummy s (c @ ''DOM'') = JDom \<and> update i f (body s) \<noteq> None")
    case False
    then show ?thesis by (auto simp: domUpdate_def throw_def frame_refl)
  next
    case True
    then obtain b where b: "update i f (body s) = Some b" by auto
    with True have s': "snd (domUpdate c i f s) = s\<lparr>body := b\<rparr>"
      by (simp add: domUpdate_def ok_def)
    from assms(1) have d: "\<And>j. L j \<Longrightarrow> \<not> T j" by simp
    show ?thesis unfolding s' frame_def
      using update_frame(2)[of L T i f "body s" b, OF d b _ assms(2) assms(3)]
        update_strip(2)[of i f "body s" b T, OF b assms(2) assms(4)] by simp
  qed
qed

lemma setInnerHTML_good:
  "\<not> occurs L new \<Longrightarrow> \<not> occursN L m \<Longrightarrow> \<not> occurs L (setInnerHTML new m)"
  by (cases m) auto

lemma afterend_good: "\<not> occurs L new \<Longrightarrow> \<not> occursN L m \<Longrightarrow> \<not> occurs L (afterend new m)"
  by (simp add: afterend_def)

lemma beforebegin_good: "\<not> occurs L new \<Longrightarrow> \<not> occursN L m \<Longrightarrow> \<not> occurs L (beforebegin new m)"
  by (simp add: beforebegin_def)

lemma appendChild_good: "\<not> occursN L c \<Longrightarrow> \<not> occursN L m \<Longrightarrow> \<not> occurs L (appendChild c m)"
  by (cases m) auto

lemmas preserves_intros =
  preserves_seq preserves_if preserves_ok preserves_throw preserves_setDummy
  preserves_setFallbackElement preserves_setLabelElement preserves_domUpdate

lemma setInnerHTML_inside:
  "idSat T as \<Longrightarrow> strip T (setInnerHTML new (Elem t as ks)) = []"
  by simp

lemma afterend_inside:
  "strip T new = [] \<Longrightarrow> idSat T as \<Longrightarrow> strip T (afterend new (Elem t as ks)) = []"
  by (simp add: afterend_def)

lemma beforebegin_inside:
  "strip T new = [] \<Longrightarrow> idSat T as \<Longrightarrow> strip T (beforebegin new (Elem t as ks)) = []"
  by (simp add: beforebegin_def)

lemma appendChild_inside:
  "idSat T as \<Longrightarrow> strip T (appendChild c (Elem t as ks)) = []"
  by simp

lemmas good_intros = setInnerHTML_good afterend_good beforebegin_good appendChild_good
  setInnerHTML_inside afterend_inside beforebegin_inside appendChild_inside

lemma describeFallbackHTML_frame:
  assumes "fallbackFootprint cnvId D L T"
  shows "preserves (frame D F G L T) (describeFallbackHTML cnvId text)"
  unfolding describeFallbackHTML_def
  apply (intro preserves_intros good_intros)
  using assms apply (auto simp: fallbackFootprint_def idSat_def)
  done

lemma describe_fallback_frame:
  assumes "fallbackFootprint cnvId D L T"
  shows "preserves (frame D F G L T) (describe_fallback cnvId text)"
  unfolding describe_fallback_def [abs_def]
  apply (intro preserves_intros good_intros describeFallbackHTML_frame assms)
  using assms apply (auto simp: fallbackFootprint_def idSat_def)
  done

lemma describeLabelHTML_frame:
  assumes "labelFootprint cnvId D L T"
  shows "preserves (frame D F G L T) (describeLabelHTML cnvId text)"
  unfolding describeLabelHTML_def
  apply (intro preserves_intros good_intros)
  using assms apply (auto simp: labelFootprint_def idSat_def)
  done

lemma describe_label_frame:
  assumes "display = LABEL \<longrightarrow> labelFootprint cnvId D L T"
  shows "preserves (frame D F G L T) (describe_label cnvId text display)"
proof (cases "display = LABEL")
  case False
  then have "describe_label cnvId text display = ok"
    by (simp add: describe_label_def fun_eq_iff)
  then show ?thesis by (simp add: preserves_ok)
next
  case True
  with assms have fp: "labelFootprint cnvId D L T" by simp
  show ?thesis
    unfolding describe_label_def [abs_def]
    apply (intro preserves_intros good_intros describeLabelHTML_frame fp)
    using fp apply (auto simp: labelFootprint_def idSat_def)
    done
qed

lemma descElementFallbackHTML_frame:
  assumes "fallbackFootprint cnvId D L T"
    and "\<not> F (cnvId @ name)" and "T (cnvId @ fallbackTableElId @ name)"
  shows "preserves (frame D F G L T) (descElementFallbackHTML cnvId name inner)"
  unfolding descElementFallbackHTML_def
  apply (intro preserves_intros good_intros)
  using assms apply (auto simp: fallbackFootprint_def idSat_def)
  done

lemma describeElement_fallback_frame:
  assumes "fallbackFootprint cnvId D L T"
    and "\<not> F (cnvId @ name)" and "T (cnvId @ fallbackTableElId @ name)"
  shows "preserves (frame D F G L T) (describeElement_fallback cnvId name inner)"
  unfolding describeElement_fallback_def [abs_def]
  apply (intro preserves_intros good_intros descElementFallbackHTML_frame assms)
  using assms apply (auto simp: fallbackFootprint_def idSat_def)
  done

lemma descElementLabelHTML_frame:
  assumes "labelFootprint cnvId D L T"
    and "\<not> G (cnvId @ name)" and "T (cnvId @ labelTableElId @ name)"
  shows "preserves (frame D F G L T) (descElementLabelHTML cnvId name inner)"
  unfolding descElementLabelHTML_def
  apply (intro preserves_intros good_intros)
  using assms apply (auto simp: labelFootprint_def idSat_def)
  done

lemma describeElement_label_frame:
  assumes "display = LABEL \<longrightarrow> labelFootprint cnvId D L T
             \<and> \<not> G (cnvId @ name) \<and> T (cnvId @ labelTableElId @ name)"
  shows "preserves (frame D F G L T) (describeElement_label cnvId name inner display)"
proof (cases "display = LABEL")
  case False
  then have "describeElement_label cnvId name inner display = ok"
    by (simp add: describeElement_label_def fun_eq_iff)
  then show ?thesis by (simp add: preserves_ok)
next
  case True
  with assms have fp: "labelFootprint cnvId D L T" "\<not> G (cnvId @ name)"
    "T (cnvId @ labelTableElId @ name)" by simp_all
  show ?thesis
    unfolding describeElement_label_def [abs_def]
    apply (intro preserves_intros good_intros descElementLabelHTML_frame fp)
    using fp apply (auto simp: labelFootprint_def idSat_def)
    done
qed

lemma populate_frame:
  "\<not> D (cnvId @ ''DOM'')
     \<Longrightarrow> preserves (frame D F G L T) (\<lambda>s. ok (if c s then populateDummyDOM cnvId s else s))"
  by (auto simp: preserves_def ok_def frame_def populateDummyDOM_def)

lemma describe_frame:
  assumes "fallbackFootprint cnvId D L T"
    and "display = LABEL \<longrightarrow> labelFootprint cnvId D L T"
    and "\<not> D (cnvId @ ''DOM'')"
  shows "frame D F G L T s (snd (describe cnvId tx display s))"
proof (cases tx)
  case (JStr t)
  show ?thesis
  proof (cases "descriptionText t")
    case (Inl e)
    with JStr show ?thesis by (simp add: describe_def throw_def frame_refl)
  next
    case (Inr text')
    from assms(3) have "preserves (frame D F G L T)
       (seq (\<lambda>s. ok (if \<not> truthy (dummy s (cnvId @ ''fallbackDesc''))
                               \<or> \<not> truthy (dummy s (cnvId @ ''labelDesc''))
                            then populateDummyDOM cnvId s else s))
                 (seq (describe_fallback cnvId text')
                      (describe_label cnvId text' display)))"
      by (intro preserves_seq populate_frame describe_fallback_frame describe_label_frame
            assms(1,2))
    with JStr Inr show ?thesis by (simp add: describe_def preserves_def)
  qed
qed (simp_all add: describe_def ok_def frame_refl)

lemma describeElement_frame:
  assumes "fallbackFootprint cnvId D L T"
    and "\<And>k. \<not> F (cnvId @ k) \<and> T (cnvId @ fallbackTableElId @ k)"
    and "display = LABEL \<longrightarrow> labelFootprint cnvId D L T
           \<and> (\<forall>k. \<not> G (cnvId @ k) \<and> T (cnvId @ labelTableElId @ k))"
    and "\<not> D (cnvId @ ''DOM'')"
  shows "frame D F G L T s (snd (describeElement cnvId name tx display s))"
proof (cases "\<exists>t n text' elName. tx = JStr t \<and> name = JStr n \<and> descriptionText t = Inr text'
                 \<and> elementName n = Inr elName")
  case False
  then have "snd (describeElement cnvId name tx display s) = s"
    by (cases tx; cases name)
       (auto simp: describeElement_def ok_def throw_def split: sum.splits)
  then show ?thesis by (simp add: frame_refl)
next
  case True
  then obtain t n text' elName where *: "tx = JStr t" "name = JStr n"
    "descriptionText t = Inr text'" "elementName n = Inr elName" by blast
  from assms(4) have "preserves (frame D F G L T)
       (seq (\<lambda>s. ok (if \<not> truthy (fallbackElements s (cnvId @ nameForID n))
                                    \<or> \<not> truthy (labelElements s (cnvId @ nameForID n))
                                 then populateDummyDOM cnvId s else s))
                      (seq (describeElement_fallback cnvId (nameForID n)
                              (rowMarkup elName text'))
                           (describeElement_label cnvId (nameForID n)
                              (rowMarkup elName text') display)))"
    using assms(1,2,3)
    by (intro preserves_seq populate_frame describeElement_fallback_frame
          describeElement_label_frame) auto
  with * show ?thesis by (simp add: describeElement_def preserves_def)
qed

section \<open>The flag \<^verbatim>\<open>updateFallbackDesc\<close>\<close>

lemma not_suffix_append:
  "\<not> suffix s t \<Longrightarrow> \<not> suffix t s \<Longrightarrow> \<not> suffix s (c @ t)"
  by (meson suffix_same_cases suffixI)


lemma updateFallbackDesc_footprints:
  "fallbackFootprint cnvId (suffix ''updateFallbackDesc'') (\<lambda>j. False) (\<lambda>j. True)"
  "labelFootprint cnvId (suffix ''updateFallbackDesc'') (\<lambda>j. False) (\<lambda>j. True)"
  "\<not> suffix ''updateFallbackDesc'' (cnvId @ ''DOM'')"
  by (simp_all add: fallbackFootprint_def labelFootprint_def id_consts not_suffix_append
        suffix_Cons)

lemma reachable_updateFallbackDesc:
  "reachable s \<Longrightarrow> suffix ''updateFallbackDesc'' k \<Longrightarrow> dummy s k = JUndefined"
proof (induction arbitrary: k rule: reachable.induct)
  case (r_initial b)
  then show ?case by (simp add: initial_def)
next
  case (r_describe s cnvId tx display)
  have "frame (suffix ''updateFallbackDesc'') (\<lambda>j. False) (\<lambda>j. False) (\<lambda>j. False) (\<lambda>j. True)
          s (snd (describe cnvId tx display s))"
    by (rule describe_frame) (simp_all add: updateFallbackDesc_footprints)
  with r_describe show ?case by (simp add: frame_def)
next
  case (r_describeElement s cnvId name tx display)
  have "frame (suffix ''updateFallbackDesc'') (\<lambda>j. False) (\<lambda>j. False) (\<lambda>j. False) (\<lambda>j. True)
          s (snd (describeElement cnvId name tx display s))"
    by (rule describeElement_frame) (simp_all add: updateFallbackDesc_footprints)
  with r_describeElement show ?case by (simp add: frame_def)
next
  case (r_clearDummy s)
  then show ?case by (simp add: clearDummy_def)
qed

text \<open>
  C3. In every state reachable by calls of \<open>describe\<close>, \<open>describeElement\<close> and
  \<open>clearDummy\<close>, the property \<^verbatim>\<open>cnvId + 'updateFallbackDesc'\<close> of \<^verbatim>\<open>dummy\<close> is
  undefined for every canvas id, hence never true: nothing assigns it (line 170
  compares), and no property name the module writes coincides with it. So the
  branch of \<open>describe\<close> that updates the paragraph in place is never taken, and
  every change of the fallback text goes through \<open>describeFallbackHTML\<close>.
\<close>

theorem updateFallbackDesc_never_set:
  assumes "reachable s"
  shows "dummy s (cnvId @ ''updateFallbackDesc'') = JUndefined
         \<and> \<not> truthy (dummy s (cnvId @ ''updateFallbackDesc''))
         \<and> describe_fallback cnvId text s =
             (if dummy s (cnvId @ ''fallbackDesc'') \<noteq> JStr text
              then describeFallbackHTML cnvId text s else ok s)"
proof -
  have "dummy s (cnvId @ ''updateFallbackDesc'') = JUndefined"
    using assms by (rule reachable_updateFallbackDesc) (simp add: suffixI)
  then show ?thesis by (simp add: describe_fallback_def truthy_def)
qed

theorem updateFallbackDesc_never_set_witness:
  "reachable (snd (describe ''c'' (JStr ''sky'') LABEL (initial [canvas ''c''])))
   \<and> dummy (snd (describe ''c'' (JStr ''sky'') LABEL (initial [canvas ''c''])))
        (''c'' @ ''updateFallbackDesc'') = JUndefined"
  using updateFallbackDesc_never_set
          [OF r_describe [OF r_initial], of "''c''" "JStr ''sky''" LABEL "[canvas ''c'']" "''c''"]
        r_describe [OF r_initial, of "''c''" "JStr ''sky''" LABEL "[canvas ''c'']"]
  by simp

section \<open>The example states, evaluated\<close>




section \<open>Calls that do not ask for a visible label\<close>





section \<open>Two surfaces\<close>





section \<open>The fallback paragraph is inserted again\<close>

text \<open>
  C1. The claim does not hold of the code. In \<open>tableFirst\<close> the container, the
  paragraph and the table of the accessible-only region all exist. A call of
  \<open>describe\<close> with a new text returns normally and inserts a second paragraph with
  the same id before the table, besides replacing the text of the first one:
  \<open>describeFallbackHTML\<close> inserts whenever the table exists, without looking at the
  paragraph's flag as \<open>describeLabelHTML\<close> does, and the branch of \<open>describe\<close>
  that would update in place is dead.
\<close>

theorem describe_duplicates_fallback_paragraph:
  "body tableFirst =
     [Elem ''canvas'' [(''id'', ''c'')]
        [Elem ''div''
           [(''id'', ''c_Description''), (''role'', ''region''),
            (''aria-label'', ''Canvas Description'')]
           [Elem ''p'' [(''id'', ''c_fallbackDesc'')] [Text ''sky.''],
            Elem ''table'' [(''id'', ''c_fallbackTable'')]
              [Elem ''caption'' [] [Text ''Canvas elements and their descriptions''],
               Elem ''tr'' [(''id'', ''c_fte_Heart'')]
                 [Text (rowMarkup ''Heart:'' ''red heart.'')]]]]]
   \<and> truthy (dummy tableFirst (''c'' @ descContainer))
   \<and> truthy (dummy tableFirst (''c'' @ fallbackDescId))
   \<and> truthy (dummy tableFirst (''c'' @ fallbackTableId))
   \<and> describe ''c'' (JStr ''sea'') JUndefined tableFirst =
       (None, tableFirst
          \<lparr>dummy := (dummy tableFirst)(''c'' @ ''fallbackDesc'' := JStr ''sea.''),
           body :=
             [Elem ''canvas'' [(''id'', ''c'')]
                [Elem ''div''
                   [(''id'', ''c_Description''), (''role'', ''region''),
                    (''aria-label'', ''Canvas Description'')]
                   [Elem ''p'' [(''id'', ''c_fallbackDesc'')] [Text ''sea.''],
                    Elem ''p'' [(''id'', ''c_fallbackDesc'')] [],
                    Elem ''table'' [(''id'', ''c_fallbackTable'')]
                      [Elem ''caption'' [] [Text ''Canvas elements and their descriptions''],
                       Elem ''tr'' [(''id'', ''c_fte_Heart'')]
                         [Text (rowMarkup ''Heart:'' ''red heart.'')]]]]]\<rparr>)
   \<and> length (collect (\<lambda>j. j = ''c'' @ fallbackDescId)
               (body (snd (describe ''c'' (JStr ''sea'') JUndefined tableFirst)))) = 2"
  by (simp add: tableFirst_def exec_defs idSat_def)

theorem describe_duplicates_fallback_paragraph_witness:
  "fst (describe ''c'' (JStr ''sea'') JUndefined tableFirst) = None
   \<and> collect (\<lambda>j. j = ''c_fallbackDesc'')
        (body (snd (describe ''c'' (JStr ''sea'') JUndefined tableFirst)))
       = [Elem ''p'' [(''id'', ''c_fallbackDesc'')] [Text ''sea.''],
          Elem ''p'' [(''id'', ''c_fallbackDesc'')] []]"
  using describe_duplicates_fallback_paragraph by (simp add: idSat_def)

section \<open>Publishing the same text twice\<close>






























end
